theory Spec2Isabelle
  imports Main
begin

section \<open>The host environment of PWAInstallDemo.tsx\<close>

text \<open>
  The component talks to the browser through four things: the display-mode media query
  and \<open>navigator.standalone\<close>, \<open>localStorage\<close>, the two install notifications, and
  calls whose only result is an effect on the page (\<open>alert\<close>, \<open>location.reload\<close>,
  \<open>prompt\<close>, ...). The effects are kept in a log, in the order the code issues them.
\<close>

text \<open>The identity of one \<open>BeforeInstallPromptEvent\<close> object.\<close>

type_synonym handle = nat

text \<open>The \<open>outcome\<close> field of the value \<open>userChoice\<close> resolves to.\<close>

datatype outcome = accepted | dismissed

text \<open>
  The three \<open>alert\<close> texts of the source (they contain non-ASCII bullets and arrows, so they
  are named rather than spelled): the one of \<open>openInstalledPWA\<close> ("If the PWA didn't open"),
  the one of the standalone branch of \<open>uninstallPWA\<close> ("To uninstall this PWA"), and the one
  of its other branch ("Installation status cleared. Refresh the page.").
\<close>

datatype alert_msg = OpenFallback | UninstallInstructions | StatusCleared

datatype console_msg = SWRegistered | SWRegistrationFailed

text \<open>What \<open>localStorage.setItem\<close> throws when the store does not take the write.\<close>

datatype dom_exception = QuotaExceededError

datatype effect =
    Alert alert_msg
  | Reload
  | Prompt handle
  | PreventDefault handle
  | Navigate string
  | SetTimeout nat alert_msg
  | RegisterServiceWorker string
  | ConsoleLog console_msg
  | Uncaught dom_exception

text \<open>
  What the component reads from \<open>window\<close> and \<open>navigator\<close>:
  \<open>matchMedia("(display-mode: standalone)").matches\<close>; \<open>navigator.standalone\<close>, which is
  undefined (\<open>None\<close>) outside iOS Safari and a boolean there; whether
  \<open>"serviceWorker" in navigator\<close>; and whether the registration promise is fulfilled.
  The last field is the store's quota: whether the store takes a write after which its
  contents would be the given ones (a store that is full, or one with writing switched
  off, takes none).
\<close>

record platform =
  display_mode_standalone :: bool
  navigator_standalone :: "bool option"
  has_serviceWorker :: bool
  sw_registration_ok :: bool
  accepts_write :: "(string \<rightharpoonup> string) \<Rightarrow> bool"

text \<open>The three \<open>useState\<close> cells of the component.\<close>

record component =
  deferredPrompt :: "handle option"
  isStandalone :: bool
  isInstalled :: bool

text \<open>
  The page: the host, the storage, the component's state, whether its two listeners are
  subscribed, the \<open>then\<close> callbacks registered on a \<open>userChoice\<close> promise and not yet run
  (one entry per registration, named by the handle), and the effect log.
\<close>

record world =
  host :: platform
  localStorage :: "string \<rightharpoonup> string"
  state :: component
  subscribed :: bool
  pending :: "handle list"
  effects :: "effect list"

definition pwa_key :: string where
  "pwa_key = ''pwa_installed''"

definition getItem :: "string \<Rightarrow> world \<Rightarrow> string option" where
  "getItem k w = localStorage w k"

definition can_store :: "string \<Rightarrow> string \<Rightarrow> world \<Rightarrow> bool" where
  "can_store k v w = accepts_write (host w) ((localStorage w)(k \<mapsto> v))"

text \<open>\<open>setItem\<close> stores the value, or throws and leaves the store as it was.\<close>

definition setItem :: "string \<Rightarrow> string \<Rightarrow> world \<Rightarrow> dom_exception + world" where
  "setItem k v w =
     (if can_store k v w then Inr (w\<lparr>localStorage := (localStorage w)(k \<mapsto> v)\<rparr>)
      else Inl QuotaExceededError)"

definition removeItem :: "string \<Rightarrow> world \<Rightarrow> world" where
  "removeItem k w = w\<lparr>localStorage := (localStorage w)(k := None)\<rparr>"

definition emit :: "effect list \<Rightarrow> world \<Rightarrow> world" where
  "emit es w = w\<lparr>effects := effects w @ es\<rparr>"

text \<open>
  The host calls a listener or a promise callback of the component. Neither has a
  \<open>try\<close>, so an exception ends the callee at the throwing statement and the host reports
  it (an error event, or an unhandled rejection). In both callees that can throw, the
  throwing statement is the first one that changes anything, so the world at the throw
  is the world at the call.
\<close>

definition host_call :: "(world \<Rightarrow> dom_exception + world) \<Rightarrow> world \<Rightarrow> world" where
  "host_call f w = (case f w of Inl e \<Rightarrow> emit [Uncaught e] w | Inr w' \<Rightarrow> w')"

section \<open>The component\<close>

definition setDeferredPrompt :: "handle option \<Rightarrow> world \<Rightarrow> world" where
  "setDeferredPrompt v w = w\<lparr>state := (state w)\<lparr>deferredPrompt := v\<rparr>\<rparr>"

definition setIsStandalone :: "bool \<Rightarrow> world \<Rightarrow> world" where
  "setIsStandalone v w = w\<lparr>state := (state w)\<lparr>isStandalone := v\<rparr>\<rparr>"

definition setIsInstalled :: "bool \<Rightarrow> world \<Rightarrow> world" where
  "setIsInstalled v w = w\<lparr>state := (state w)\<lparr>isInstalled := v\<rparr>\<rparr>"

text \<open>The initial values given to \<open>useState\<close> (lines 11 to 14).\<close>

definition initial :: component where
  "initial = \<lparr>deferredPrompt = None, isStandalone = False, isInstalled = False\<rparr>"

text \<open>A freshly loaded page: nothing subscribed, nothing pending, nothing done yet.\<close>

definition load :: "platform \<Rightarrow> (string \<rightharpoonup> string) \<Rightarrow> world" where
  "load p st = \<lparr>host = p, localStorage = st, state = initial, subscribed = False,
     pending = [], effects = []\<rparr>"

text \<open>Lines 17 to 22. \<open>=== true\<close> holds of the boolean \<open>true\<close> only.\<close>

definition checkStandalone :: "world \<Rightarrow> bool" where
  "checkStandalone w =
     (display_mode_standalone (host w) \<or> navigator_standalone (host w) = Some True)"

text \<open>Lines 24 to 28.\<close>

definition checkInstalled :: "world \<Rightarrow> bool" where
  "checkInstalled w = (checkStandalone w \<or> getItem pwa_key w = Some ''true'')"

text \<open>
  Lines 31 to 43, the part that runs at the click: return when no handle is held, else
  call \<open>prompt\<close> and register the callback on the handle's \<open>userChoice\<close>.
\<close>

definition installPWA :: "world \<Rightarrow> world" where
  "installPWA w =
     (case deferredPrompt (state w) of
        None \<Rightarrow> w
      | Some h \<Rightarrow> (emit [Prompt h] w)\<lparr>pending := pending w @ [h]\<rparr>)"

text \<open>
  Lines 36 to 42, the callback given to \<open>then\<close>. On acceptance \<open>setItem\<close> comes first
  (line 38); when it throws, lines 39 and 41 do not run.
\<close>

definition userChoice_then :: "outcome \<Rightarrow> world \<Rightarrow> dom_exception + world" where
  "userChoice_then oc w =
     (if oc = accepted
      then (case setItem pwa_key ''true'' w of
              Inl e \<Rightarrow> Inl e
            | Inr w1 \<Rightarrow> Inr (setDeferredPrompt None (setIsInstalled True w1)))
      else Inr (setDeferredPrompt None w))"

text \<open>
  The host resolves the \<open>userChoice\<close> of handle \<open>h\<close>: every callback registered on it runs
  once, and none of them stays registered.
\<close>

definition resolve_userChoice :: "handle \<Rightarrow> outcome \<Rightarrow> world \<Rightarrow> world" where
  "resolve_userChoice h oc w =
     (host_call (userChoice_then oc) ^^ count_list (pending w) h)
       (w\<lparr>pending := removeAll h (pending w)\<rparr>)"

text \<open>Lines 46 to 54. The alert is scheduled, 1000 ms later.\<close>

definition openInstalledPWA :: "world \<Rightarrow> world" where
  "openInstalledPWA w = emit [Navigate ''web+pwa://launch-pwa'', SetTimeout 1000 OpenFallback] w"

text \<open>Lines 57 to 68.\<close>

definition uninstallPWA :: "world \<Rightarrow> world" where
  "uninstallPWA w =
     (let w1 = removeItem pwa_key w in
      if checkStandalone w1 then emit [Alert UninstallInstructions] w1
      else emit [Alert StatusCleared, Reload] w1)"

text \<open>Lines 75 to 78.\<close>

definition handleBeforeInstall :: "handle \<Rightarrow> world \<Rightarrow> world" where
  "handleBeforeInstall h w = setDeferredPrompt (Some h) (emit [PreventDefault h] w)"

text \<open>Lines 80 to 84. When \<open>setItem\<close> (line 81) throws, lines 82 and 83 do not run.\<close>

definition handleAppInstalled :: "world \<Rightarrow> dom_exception + world" where
  "handleAppInstalled w =
     (case setItem pwa_key ''true'' w of
        Inl e \<Rightarrow> Inl e
      | Inr w1 \<Rightarrow> Inr (setDeferredPrompt None (setIsInstalled True w1)))"

text \<open>
  Lines 71 to 95, the body of the effect that runs once after the first render: both
  flags are computed and stored, the listeners are added, the service worker is
  registered when the host has one, and the settlement of that promise is logged.
\<close>

definition mount :: "world \<Rightarrow> world" where
  "mount w =
     (let w1 = setIsStandalone (checkStandalone w) w;
          w2 = setIsInstalled (checkInstalled w1) w1;
          w3 = w2\<lparr>subscribed := True\<rparr>
      in if has_serviceWorker (host w3)
         then emit [RegisterServiceWorker ''/service-worker.js'',
                    ConsoleLog (if sw_registration_ok (host w3) then SWRegistered
                                else SWRegistrationFailed)] w3
         else w3)"

text \<open>Lines 97 to 100, the cleanup of the effect.\<close>

definition unmount :: "world \<Rightarrow> world" where
  "unmount w = w\<lparr>subscribed := False\<rparr>"

section \<open>The view\<close>

text \<open>
  The elements of the returned tree, named by their class: the three status panels
  (\<open>status pwa\<close>, \<open>status installed\<close>, \<open>status browser\<close>), the install button with its
  \<open>disabled\<close> attribute, and the other buttons.
\<close>

datatype element =
    Heading
  | StatusPwa
  | StatusInstalled
  | StatusBrowser
  | InstallButton bool
  | OpenButton
  | ResetButton
  | UninstallButton
  | Info

text \<open>Lines 103 to 169.\<close>

definition render :: "component \<Rightarrow> element list" where
  "render c =
     [Heading] @
     [if isStandalone c then StatusPwa
      else if isInstalled c then StatusInstalled
      else StatusBrowser] @
     (if \<not> isStandalone c \<and> \<not> isInstalled c
      then [InstallButton (deferredPrompt c = None)] else []) @
     (if isInstalled c \<and> \<not> isStandalone c then [OpenButton, ResetButton] else []) @
     (if isStandalone c then [UninstallButton] else []) @
     [Info]"

fun is_status :: "element \<Rightarrow> bool" where
  "is_status StatusPwa = True"
| "is_status StatusInstalled = True"
| "is_status StatusBrowser = True"
| "is_status _ = False"

section \<open>What can happen to a page\<close>

text \<open>
  Everything that runs code of the component: the effect and its cleanup, the two host
  notifications (delivered to the listeners while they are subscribed), the resolution
  of a \<open>userChoice\<close>, and the \<open>onClick\<close> of each button.
\<close>

datatype action =
    DoMount
  | DoUnmount
  | OnBeforeInstallPrompt handle
  | OnAppInstalled
  | OnUserChoice handle outcome
  | ClickInstall
  | ClickOpen
  | ClickUninstall

fun perform :: "action \<Rightarrow> world \<Rightarrow> world" where
  "perform DoMount w = mount w"
| "perform DoUnmount w = unmount w"
| "perform (OnBeforeInstallPrompt h) w = (if subscribed w then handleBeforeInstall h w else w)"
| "perform OnAppInstalled w = (if subscribed w then host_call handleAppInstalled w else w)"
| "perform (OnUserChoice h oc) w = resolve_userChoice h oc w"
| "perform ClickInstall w = installPWA w"
| "perform ClickOpen w = openInstalledPWA w"
| "perform ClickUninstall w = uninstallPWA w"

section \<open>Concrete hosts\<close>

text \<open>A browser tab and an app window, both with room in the store.\<close>

definition browser_tab :: platform where
  "browser_tab = \<lparr>display_mode_standalone = False, navigator_standalone = None,
     has_serviceWorker = True, sw_registration_ok = True, accepts_write = (\<lambda>m. True)\<rparr>"

definition app_window :: platform where
  "app_window = \<lparr>display_mode_standalone = True, navigator_standalone = None,
     has_serviceWorker = True, sw_registration_ok = True, accepts_write = (\<lambda>m. True)\<rparr>"

text \<open>
  A browser tab whose store has room for an entry under "cache" or for the flag, but
  not for both.
\<close>

definition full_store_tab :: platform where
  "full_store_tab = \<lparr>display_mode_standalone = False, navigator_standalone = None,
     has_serviceWorker = True, sw_registration_ok = True,
     accepts_write = (\<lambda>m. m ''cache'' = None \<or> m ''pwa_installed'' = None)\<rparr>"

text \<open>
  The page in that tab with the "cache" entry stored, after the effect and an
  availability notification with handle 5.
\<close>

definition held_on_full_store :: world where
  "held_on_full_store =
     handleBeforeInstall 5 (mount (load full_store_tab [''cache'' \<mapsto> ''0123456789'']))"

definition from_tab_to_app_window :: world where
  "from_tab_to_app_window = (mount (load browser_tab Map.empty))\<lparr>host := app_window\<rparr>"

text \<open>A sequence of happenings, in order.\<close>

definition run :: "action list \<Rightarrow> world \<Rightarrow> world" where
  "run as w = fold perform as w"

section \<open>Unfolding and helper facts\<close>

lemmas storage_defs = pwa_key_def getItem_def can_store_def setItem_def removeItem_def emit_def
  host_call_def

lemmas setter_defs = setDeferredPrompt_def setIsStandalone_def setIsInstalled_def

lemmas component_defs = storage_defs setter_defs initial_def load_def checkStandalone_def
  checkInstalled_def installPWA_def userChoice_then_def openInstalledPWA_def uninstallPWA_def
  handleBeforeInstall_def handleAppInstalled_def mount_def unmount_def

lemmas host_defs = browser_tab_def app_window_def full_store_tab_def

text \<open>
  When the write is taken, or the choice is a dismissal, the callback is idempotent, so
  it does not matter how often it was registered.
\<close>

lemma callback_twice:
  assumes "oc = dismissed \<or> can_store pwa_key ''true'' w"
  shows "host_call (userChoice_then oc) (host_call (userChoice_then oc) w) =
           host_call (userChoice_then oc) w"
  using assms by (cases oc) (simp_all add: userChoice_then_def setter_defs storage_defs)

lemma callback_repeated:
  assumes "oc = dismissed \<or> can_store pwa_key ''true'' w"
  shows "(host_call (userChoice_then oc) ^^ Suc n) w = host_call (userChoice_then oc) w"
proof (induction n)
  case 0
  show ?case by simp
next
  case (Suc n)
  have "(host_call (userChoice_then oc) ^^ Suc (Suc n)) w =
          host_call (userChoice_then oc) ((host_call (userChoice_then oc) ^^ Suc n) w)"
    by simp
  also have "\<dots> = host_call (userChoice_then oc) (host_call (userChoice_then oc) w)"
    using Suc.IH by simp
  finally show ?case
    by (simp only: callback_twice [OF assms])
qed

lemma resolve_after_install:
  assumes "deferredPrompt (state w) = Some h"
    and "oc = dismissed \<or> can_store pwa_key ''true'' w"
  shows "resolve_userChoice h oc (installPWA w) =
           host_call (userChoice_then oc)
             ((emit [Prompt h] w)\<lparr>pending := removeAll h (pending w)\<rparr>)"
proof -
  let ?w = "(emit [Prompt h] w)\<lparr>pending := removeAll h (pending w)\<rparr>"
  have inst: "installPWA w = (emit [Prompt h] w)\<lparr>pending := pending w @ [h]\<rparr>"
    using assms(1) by (simp add: installPWA_def)
  have taken: "oc = dismissed \<or> can_store pwa_key ''true'' ?w"
    using assms(2) by (simp add: can_store_def emit_def)
  have "resolve_userChoice h oc (installPWA w) =
          (host_call (userChoice_then oc) ^^ Suc (count_list (pending w) h)) ?w"
    unfolding resolve_userChoice_def by (simp add: inst emit_def del: funpow.simps)
  then show ?thesis
    by (simp only: callback_repeated [OF taken])
qed

text \<open>One run of the callback, and any number of runs: the storage and the standalone cell.\<close>

lemma callback_storage_cases:
  "localStorage (host_call (userChoice_then oc) w) = localStorage w
   \<or> localStorage (host_call (userChoice_then oc) w) = (localStorage w)(pwa_key \<mapsto> ''true'')"
  by (simp add: userChoice_then_def setter_defs storage_defs)

lemma callback_isStandalone:
  "isStandalone (state (host_call (userChoice_then oc) w)) = isStandalone (state w)"
  by (simp add: userChoice_then_def setter_defs storage_defs)

lemma callbacks_storage_cases:
  "localStorage ((host_call (userChoice_then oc) ^^ n) w) = localStorage w
   \<or> localStorage ((host_call (userChoice_then oc) ^^ n) w) = (localStorage w)(pwa_key \<mapsto> ''true'')"
proof (induction n)
  case 0
  show ?case by simp
next
  case (Suc n)
  let ?x = "(host_call (userChoice_then oc) ^^ n) w"
  have step: "localStorage (host_call (userChoice_then oc) ?x) = localStorage ?x
      \<or> localStorage (host_call (userChoice_then oc) ?x) = (localStorage ?x)(pwa_key \<mapsto> ''true'')"
    by (rule callback_storage_cases)
  from Suc.IH step show ?case
    by auto
qed

lemma callbacks_isStandalone:
  "isStandalone (state ((host_call (userChoice_then oc) ^^ n) w)) = isStandalone (state w)"
  by (induction n) (simp_all add: callback_isStandalone)

lemma resolve_storage_cases:
  "localStorage (resolve_userChoice h oc w) = localStorage w
   \<or> localStorage (resolve_userChoice h oc w) = (localStorage w)(pwa_key \<mapsto> ''true'')"
  using callbacks_storage_cases
    [where oc = oc and n = "count_list (pending w) h"
       and w = "w\<lparr>pending := removeAll h (pending w)\<rparr>"]
  by (simp add: resolve_userChoice_def)

lemma resolve_isStandalone:
  "isStandalone (state (resolve_userChoice h oc w)) = isStandalone (state w)"
  by (simp add: resolve_userChoice_def callbacks_isStandalone)

text \<open>Every happening leaves the storage alone, stores "true" under the key, or removes the key.\<close>

lemma perform_storage_cases:
  "localStorage (perform a w) = localStorage w
   \<or> localStorage (perform a w) = (localStorage w)(pwa_key \<mapsto> ''true'')
   \<or> localStorage (perform a w) = (localStorage w)(pwa_key := None)"
proof (cases a)
  case (OnUserChoice h oc)
  then show ?thesis using resolve_storage_cases [of h oc w] by auto
qed (simp_all add: component_defs Let_def split: option.splits)

text \<open>Only the effect writes the standalone cell.\<close>

lemma perform_isStandalone:
  "isStandalone (state (perform a w)) =
     (if a = DoMount then checkStandalone w else isStandalone (state w))"
proof (cases a)
  case (OnUserChoice h oc)
  then show ?thesis by (simp add: resolve_isStandalone)
qed (simp_all add: component_defs Let_def split: option.splits)

lemma render_one_status:
  "filter is_status (render c) =
     [if isStandalone c then StatusPwa else if isInstalled c then StatusInstalled else StatusBrowser]"
  by (simp add: render_def)

text \<open>
  The effect runs after the first render, so the very first frame is drawn from the
  initial values of the three cells, whatever the host and the storage are.
\<close>

lemma first_frame: "render (state (load p st)) = [Heading, StatusBrowser, InstallButton True, Info]"
  by (simp add: render_def load_def initial_def)

text \<open>The page with a handle held in the tab whose store is filled by another entry.\<close>

lemma held_on_full_store_eq:
  "held_on_full_store =
     \<lparr>host = full_store_tab, localStorage = [''cache'' \<mapsto> ''0123456789''],
      state = \<lparr>deferredPrompt = Some 5, isStandalone = False, isInstalled = False\<rparr>,
      subscribed = True, pending = [],
      effects = [RegisterServiceWorker ''/service-worker.js'', ConsoleLog SWRegistered,
                 PreventDefault 5]\<rparr>"
  by (simp add: held_on_full_store_def component_defs host_defs Let_def)

section \<open>The claims\<close>

text \<open>
  C1. On every initial load, once the effect has run, the view holds exactly one status
  panel, and which one depends on the standalone predicate and the persisted flag only:
  the standalone panel when the predicate holds, whatever the flag; the installed panel
  when it does not and the flag is stored; the install panel when neither holds. In
  every state of the component exactly one of the three panels is in the view.
\<close>

theorem initial_display_determined:
  "filter is_status (render (state (mount (load p st)))) =
     [if checkStandalone (load p st) then StatusPwa
      else if st pwa_key = Some ''true'' then StatusInstalled
      else StatusBrowser]
   \<and> length (filter is_status (render c)) = 1"
  by (simp add: render_one_status component_defs Let_def)

text \<open>
  C2. In every state the reset removes the persisted flag from the storage. When the
  standalone predicate holds it only shows the uninstall instructions and no reload
  follows; when it does not hold it shows the notice and reloads the page.
\<close>

theorem reset_removes_flag:
  "getItem pwa_key (uninstallPWA w) = None
   \<and> effects (uninstallPWA w) =
       effects w @ (if checkStandalone w then [Alert UninstallInstructions]
                    else [Alert StatusCleared, Reload])"
  by (simp add: component_defs Let_def)

text \<open>
  C3, as stated, fails when the store does not take the write. In a tab whose store is
  filled by another entry, with handle 5 held, the install click and an accepted choice run the callback
  into the exception of \<open>setItem\<close> (line 38): the flag stays absent, the installed cell
  stays false, and the handle cell still holds handle 5.
\<close>

theorem install_accepted_on_full_store:
  "deferredPrompt (state held_on_full_store) = Some 5
   \<and> userChoice_then accepted (installPWA held_on_full_store) = Inl QuotaExceededError
   \<and> getItem pwa_key (resolve_userChoice 5 accepted (installPWA held_on_full_store)) = None
   \<and> isInstalled (state (resolve_userChoice 5 accepted (installPWA held_on_full_store))) = False
   \<and> deferredPrompt (state (resolve_userChoice 5 accepted (installPWA held_on_full_store))) = Some 5"
  by (simp add: held_on_full_store_eq resolve_userChoice_def installPWA_def userChoice_then_def
      storage_defs host_defs)

text \<open>
  C3, amended. With a handle held, after the install click and the resolution of the
  user's choice: on acceptance, when the store takes the write of the flag, the flag is
  stored, the installed cell is true and the handle cell is empty; on dismissal the
  storage is as it was (so an absent flag stays absent) and the handle cell is empty.
  In both cases the prompt has been invoked once and nothing else was issued.
\<close>

theorem install_choice_resolved:
  assumes "deferredPrompt (state w) = Some h"
  shows "(can_store pwa_key ''true'' w \<longrightarrow>
            getItem pwa_key (resolve_userChoice h accepted (installPWA w)) = Some ''true''
          \<and> isInstalled (state (resolve_userChoice h accepted (installPWA w)))
          \<and> deferredPrompt (state (resolve_userChoice h accepted (installPWA w))) = None
          \<and> effects (resolve_userChoice h accepted (installPWA w)) = effects w @ [Prompt h])
     \<and> localStorage (resolve_userChoice h dismissed (installPWA w)) = localStorage w
     \<and> isInstalled (state (resolve_userChoice h dismissed (installPWA w))) = isInstalled (state w)
     \<and> deferredPrompt (state (resolve_userChoice h dismissed (installPWA w))) = None
     \<and> effects (resolve_userChoice h dismissed (installPWA w)) = effects w @ [Prompt h]"
proof -
  have d: "resolve_userChoice h dismissed (installPWA w) =
             host_call (userChoice_then dismissed)
               ((emit [Prompt h] w)\<lparr>pending := removeAll h (pending w)\<rparr>)"
    by (rule resolve_after_install [OF assms]) simp
  have a: "resolve_userChoice h accepted (installPWA w) =
             host_call (userChoice_then accepted)
               ((emit [Prompt h] w)\<lparr>pending := removeAll h (pending w)\<rparr>)"
    if "can_store pwa_key ''true'' w"
    by (rule resolve_after_install [OF assms]) (simp add: that)
  show ?thesis
    using a by (auto simp add: d userChoice_then_def setter_defs storage_defs)
qed

theorem install_choice_resolved_witness:
  "deferredPrompt (state (handleBeforeInstall 7 (mount (load browser_tab Map.empty)))) = Some 7
   \<and> can_store pwa_key ''true'' (handleBeforeInstall 7 (mount (load browser_tab Map.empty)))
   \<and> getItem pwa_key (resolve_userChoice 7 accepted
        (installPWA (handleBeforeInstall 7 (mount (load browser_tab Map.empty))))) = Some ''true''
   \<and> deferredPrompt (state (resolve_userChoice 7 accepted
        (installPWA (handleBeforeInstall 7 (mount (load browser_tab Map.empty)))))) = None
   \<and> getItem pwa_key (resolve_userChoice 7 dismissed
        (installPWA (handleBeforeInstall 7 (mount (load browser_tab Map.empty))))) = None
   \<and> deferredPrompt (state (resolve_userChoice 7 dismissed
        (installPWA (handleBeforeInstall 7 (mount (load browser_tab Map.empty)))))) = None"
proof -
  have held: "deferredPrompt (state (handleBeforeInstall 7 (mount (load browser_tab Map.empty)))) = Some 7"
    by (simp add: component_defs host_defs Let_def)
  have room: "can_store pwa_key ''true'' (handleBeforeInstall 7 (mount (load browser_tab Map.empty)))"
    by (simp add: component_defs host_defs Let_def)
  have absent: "localStorage (handleBeforeInstall 7 (mount (load browser_tab Map.empty))) = Map.empty"
    by (simp add: component_defs host_defs Let_def)
  show ?thesis
    using held room absent install_choice_resolved [OF held]
    by (simp add: getItem_def)
qed

text \<open>
  C4, as stated, fails when the store does not take the write. In a tab whose store is
  filled by another entry, with handle 5 held, the handler of the install-completed notification stops at
  the exception of \<open>setItem\<close> (line 81): the flag is absent, the installed cell is false
  and the handle cell still holds handle 5.
\<close>

theorem installed_notification_on_full_store:
  "subscribed held_on_full_store
   \<and> handleAppInstalled held_on_full_store = Inl QuotaExceededError
   \<and> getItem pwa_key (perform OnAppInstalled held_on_full_store) = None
   \<and> isInstalled (state (perform OnAppInstalled held_on_full_store)) = False
   \<and> deferredPrompt (state (perform OnAppInstalled held_on_full_store)) = Some 5"
  by (simp add: held_on_full_store_eq handleAppInstalled_def storage_defs host_defs)

text \<open>
  C4, amended. Whether a handle is held or not, when the store takes the write of the
  flag, the handler of the install-completed notification returns normally, stores the
  flag, sets the installed cell and empties the handle cell.
\<close>

theorem installed_notification:
  assumes "can_store pwa_key ''true'' w"
  shows "handleAppInstalled w = Inr (host_call handleAppInstalled w)
     \<and> getItem pwa_key (host_call handleAppInstalled w) = Some ''true''
     \<and> isInstalled (state (host_call handleAppInstalled w))
     \<and> deferredPrompt (state (host_call handleAppInstalled w)) = None"
  using assms by (simp add: handleAppInstalled_def setter_defs storage_defs)

theorem installed_notification_witness:
  "can_store pwa_key ''true'' (handleBeforeInstall 7 (mount (load browser_tab Map.empty)))
   \<and> getItem pwa_key (host_call handleAppInstalled
        (handleBeforeInstall 7 (mount (load browser_tab Map.empty)))) = Some ''true''
   \<and> state (host_call handleAppInstalled
        (handleBeforeInstall 7 (mount (load browser_tab Map.empty)))) =
       \<lparr>deferredPrompt = None, isStandalone = False, isInstalled = True\<rparr>"
proof -
  have room: "can_store pwa_key ''true'' (handleBeforeInstall 7 (mount (load browser_tab Map.empty)))"
    by (simp add: component_defs host_defs Let_def)
  have "isStandalone (state (host_call handleAppInstalled
        (handleBeforeInstall 7 (mount (load browser_tab Map.empty))))) = False"
    by (simp add: component_defs host_defs Let_def)
  then show ?thesis
    using room installed_notification [OF room] by simp
qed

text \<open>
  C5, as stated, fails on the display branch. A page is loaded in a browser tab, the
  effect runs, and the host then shows the same page in an app window: the predicate
  holds now, the reset takes its standalone branch, but the \<open>isStandalone\<close> cell still
  holds the value captured by the effect and the view shows the install panel.
\<close>

theorem standalone_display_is_stale:
  "checkStandalone from_tab_to_app_window
   \<and> isStandalone (state from_tab_to_app_window) = False
   \<and> filter is_status (render (state from_tab_to_app_window)) = [StatusBrowser]
   \<and> effects (uninstallPWA from_tab_to_app_window) =
       effects from_tab_to_app_window @ [Alert UninstallInstructions]"
  by (simp add: from_tab_to_app_window_def render_def component_defs host_defs Let_def)

text \<open>
  C5, amended. The standalone predicate is computed from the host at each call and reads
  nothing of the component's state. Its value is stored in the \<open>isStandalone\<close> cell by
  the effect and by nothing else. The display branch reads that cell; the reset branch
  reads the predicate at the time of the reset.
\<close>

theorem standalone_flag_stored_at_mount:
  "checkStandalone (w\<lparr>state := c\<rparr>) = checkStandalone w
   \<and> isStandalone (state (perform a w)) =
       (if a = DoMount then checkStandalone w else isStandalone (state w))
   \<and> (StatusPwa \<in> set (render (state w))) = isStandalone (state w)
   \<and> (Reload \<in> set (drop (length (effects w)) (effects (uninstallPWA w)))) = (\<not> checkStandalone w)"
proof -
  have "checkStandalone (w\<lparr>state := c\<rparr>) = checkStandalone w"
    by (simp add: checkStandalone_def)
  moreover have "(StatusPwa \<in> set (render (state w))) = isStandalone (state w)"
    by (simp add: render_def)
  moreover have "(Reload \<in> set (drop (length (effects w)) (effects (uninstallPWA w)))) = (\<not> checkStandalone w)"
    by (simp add: component_defs Let_def)
  ultimately show ?thesis
    by (simp only: perform_isStandalone simp_thms)
qed

text \<open>
  C6. For every host and every storage, the installed flag computed at initialization
  is true exactly when the standalone predicate holds or the stored flag is "true".
\<close>

theorem installed_flag_at_init:
  "checkInstalled w = (checkStandalone w \<or> localStorage w pwa_key = Some ''true'')
   \<and> isInstalled (state (mount w)) = (checkStandalone w \<or> localStorage w pwa_key = Some ''true'')"
  by (simp add: component_defs Let_def)

text \<open>
  C7. When no handle is held the install click changes nothing: storage, cells, pending
  callbacks and effect log are as before, so no prompt was invoked.
\<close>

theorem install_without_handle:
  "deferredPrompt (state w) = None \<Longrightarrow> installPWA w = w"
  by (simp add: installPWA_def)

theorem install_without_handle_witness:
  "deferredPrompt (state (mount (load browser_tab Map.empty))) = None
   \<and> installPWA (mount (load browser_tab Map.empty)) = mount (load browser_tab Map.empty)"
proof -
  have none: "deferredPrompt (state (mount (load browser_tab Map.empty))) = None"
    by (simp add: component_defs host_defs Let_def)
  show ?thesis
    using none install_without_handle [OF none] by simp
qed

text \<open>
  C8. A fresh page (no entry under the key, predicate false, a store that takes the
  write of the flag): after the effect the install panel is shown with the install
  button disabled; after the availability notification the button is enabled; after the
  click and an accepted choice the stored flag is "true" and the view shows the
  installed panel.
\<close>

theorem fresh_install_scenario:
  assumes "\<not> checkStandalone (load p st)" and "st pwa_key = None"
    and "can_store pwa_key ''true'' (load p st)"
  shows "render (state (run [DoMount] (load p st))) =
           [Heading, StatusBrowser, InstallButton True, Info]
     \<and> render (state (run [DoMount, OnBeforeInstallPrompt h] (load p st))) =
           [Heading, StatusBrowser, InstallButton False, Info]
     \<and> getItem pwa_key (run [DoMount, OnBeforeInstallPrompt h, ClickInstall,
           OnUserChoice h accepted] (load p st)) = Some ''true''
     \<and> render (state (run [DoMount, OnBeforeInstallPrompt h, ClickInstall,
           OnUserChoice h accepted] (load p st))) =
           [Heading, StatusInstalled, OpenButton, ResetButton, Info]"
proof -
  let ?m = "mount (load p st)"
  let ?b = "handleBeforeInstall h ?m"
  have sub: "subscribed ?m"
    by (simp add: component_defs Let_def)
  have m: "state ?m = initial"
    using assms(1,2) by (simp add: component_defs Let_def)
  have b: "state ?b = initial\<lparr>deferredPrompt := Some h\<rparr>"
    using m by (simp add: handleBeforeInstall_def setter_defs emit_def)
  then have held: "deferredPrompt (state ?b) = Some h"
    by simp
  have room: "accepted = dismissed \<or> can_store pwa_key ''true'' ?b"
    using assms(3) by (simp add: component_defs Let_def)
  then have room': "accepts_write (host ?b) ((localStorage ?b)(pwa_key \<mapsto> ''true''))"
    by (simp add: can_store_def)
  let ?f = "resolve_userChoice h accepted (installPWA ?b)"
  have f: "state ?f = \<lparr>deferredPrompt = None, isStandalone = False, isInstalled = True\<rparr>"
    using room'
    by (simp add: resolve_after_install [OF held room] userChoice_then_def setter_defs
        storage_defs b initial_def)
  have k: "getItem pwa_key ?f = Some ''true''"
    using room'
    by (simp add: resolve_after_install [OF held room] userChoice_then_def setter_defs
        storage_defs)
  show ?thesis
    using sub by (simp add: run_def m b f k render_def initial_def)
qed

theorem fresh_install_scenario_witness:
  "\<not> checkStandalone (load browser_tab Map.empty) \<and> Map.empty pwa_key = (None :: string option)
   \<and> can_store pwa_key ''true'' (load browser_tab Map.empty)
   \<and> render (state (run [DoMount, OnBeforeInstallPrompt 3] (load browser_tab Map.empty))) =
           [Heading, StatusBrowser, InstallButton False, Info]
   \<and> render (state (run [DoMount, OnBeforeInstallPrompt 3, ClickInstall,
           OnUserChoice 3 accepted] (load browser_tab Map.empty))) =
           [Heading, StatusInstalled, OpenButton, ResetButton, Info]"
proof -
  have tab: "\<not> checkStandalone (load browser_tab Map.empty)"
    by (simp add: checkStandalone_def load_def host_defs)
  have fresh: "Map.empty pwa_key = (None :: string option)"
    by simp
  have room: "can_store pwa_key ''true'' (load browser_tab Map.empty)"
    by (simp add: can_store_def load_def host_defs)
  show ?thesis
    using tab room fresh_install_scenario [OF tab fresh room, of 3] by simp
qed

text \<open>
  C9. The flag counts only as the exact string "true" under the key "pwa_installed".
  Whatever happens, the storage is left alone, or "true" is stored under that key, or
  that key is removed; the accepted choice and the installed notification store "true"
  there (and leave the storage alone when the store does not take the write). With any
  other value under the key (another non-empty string too) and the predicate false, the
  installed flag is computed false.
\<close>

theorem flag_is_exactly_true:
  "pwa_key = ''pwa_installed''
   \<and> (localStorage (perform a w) = localStorage w
     \<or> localStorage (perform a w) = (localStorage w)(pwa_key \<mapsto> ''true'')
     \<or> localStorage (perform a w) = (localStorage w)(pwa_key := None))
   \<and> localStorage (host_call (userChoice_then accepted) w) =
       (if can_store pwa_key ''true'' w then (localStorage w)(pwa_key \<mapsto> ''true'')
        else localStorage w)
   \<and> localStorage (host_call handleAppInstalled w) =
       (if can_store pwa_key ''true'' w then (localStorage w)(pwa_key \<mapsto> ''true'')
        else localStorage w)
   \<and> (getItem pwa_key w \<noteq> Some ''true'' \<and> \<not> checkStandalone w \<longrightarrow>
        \<not> checkInstalled w \<and> \<not> isInstalled (state (mount w)))"
proof -
  have "localStorage (host_call (userChoice_then accepted) w) =
       (if can_store pwa_key ''true'' w then (localStorage w)(pwa_key \<mapsto> ''true'')
        else localStorage w)"
    by (simp add: component_defs)
  moreover have "localStorage (host_call handleAppInstalled w) =
       (if can_store pwa_key ''true'' w then (localStorage w)(pwa_key \<mapsto> ''true'')
        else localStorage w)"
    by (simp add: component_defs)
  moreover have "getItem pwa_key w \<noteq> Some ''true'' \<and> \<not> checkStandalone w \<longrightarrow>
        \<not> checkInstalled w \<and> \<not> isInstalled (state (mount w))"
    by (simp add: component_defs Let_def)
  ultimately show ?thesis
    using perform_storage_cases [of a w] pwa_key_def by blast
qed

theorem flag_is_exactly_true_witness:
  "getItem pwa_key (load browser_tab [pwa_key \<mapsto> ''TRUE'']) \<noteq> Some ''true''
   \<and> \<not> checkStandalone (load browser_tab [pwa_key \<mapsto> ''TRUE''])
   \<and> \<not> checkInstalled (load browser_tab [pwa_key \<mapsto> ''TRUE''])
   \<and> \<not> isInstalled (state (mount (load browser_tab [pwa_key \<mapsto> ''TRUE''])))"
proof -
  have other: "getItem pwa_key (load browser_tab [pwa_key \<mapsto> ''TRUE'']) \<noteq> Some ''true''"
    by (simp add: getItem_def load_def)
  have tab: "\<not> checkStandalone (load browser_tab [pwa_key \<mapsto> ''TRUE''])"
    by (simp add: checkStandalone_def load_def host_defs)
  show ?thesis
    using other tab flag_is_exactly_true [of DoMount "load browser_tab [pwa_key \<mapsto> ''TRUE'']"]
    by blast
qed

text \<open>
  C10. When the standalone predicate holds, the reset removes the storage key, shows the
  uninstall instructions, and changes nothing else: the three cells (standalone,
  installed, handle) and so the view are as before, the predicate still holds, and no
  reload is issued.
\<close>

theorem reset_in_standalone_frame:
  assumes "checkStandalone w"
  shows "uninstallPWA w = w\<lparr>localStorage := (localStorage w)(pwa_key := None),
                            effects := effects w @ [Alert UninstallInstructions]\<rparr>
     \<and> state (uninstallPWA w) = state w
     \<and> render (state (uninstallPWA w)) = render (state w)
     \<and> checkStandalone (uninstallPWA w)
     \<and> Reload \<notin> set (drop (length (effects w)) (effects (uninstallPWA w)))"
  using assms by (simp add: component_defs Let_def)

theorem reset_in_standalone_frame_witness:
  "checkStandalone (mount (load app_window [pwa_key \<mapsto> ''true'']))
   \<and> state (uninstallPWA (mount (load app_window [pwa_key \<mapsto> ''true'']))) =
       \<lparr>deferredPrompt = None, isStandalone = True, isInstalled = True\<rparr>
   \<and> getItem pwa_key (uninstallPWA (mount (load app_window [pwa_key \<mapsto> ''true'']))) = None"
proof -
  have app: "checkStandalone (mount (load app_window [pwa_key \<mapsto> ''true'']))"
    by (simp add: component_defs host_defs Let_def)
  have st: "state (mount (load app_window [pwa_key \<mapsto> ''true''])) =
       \<lparr>deferredPrompt = None, isStandalone = True, isInstalled = True\<rparr>"
    by (simp add: component_defs host_defs Let_def)
  show ?thesis
    using app st reset_in_standalone_frame [OF app]
    by (simp add: getItem_def)
qed

end
